theory Spec2Isabelle
  imports Main
begin

section \<open>The document blob builder (\<open>as_document_blob\<close>, db_abstractions.ts)\<close>

text \<open>
  The flag data an entry carries (\<open>FoundryFlagData\<close>): the name its document had when
  it was loaded, and the pending top-level overrides. The overrides are an object keyed
  by field name (\<open>name\<close>, \<open>folder\<close>, \<open>img\<close>, ...); its values are modelled as strings,
  and a key that is absent reads as \<open>None\<close> (JavaScript's \<open>undefined\<close>).
\<close>

record FoundryFlagData =
  orig_doc_name :: string
  top_level_data :: "string \<rightharpoonup> string"

text \<open>The live entry: the fields of \<open>LiveEntryTypes<T>\<close> that the builder reads or writes.\<close>

record LiveEntry =
  Name :: string
  RegistryID :: string
  Flags :: FoundryFlagData

text \<open>A value of the record handed to the host: a string, or the nested saved data.\<close>

datatype 'd blob_value = BString string | BData 'd

text \<open>JavaScript truthiness of a string that may be absent: present and not empty.\<close>

fun truthy :: "string option \<Rightarrow> bool" where
  "truthy None = False"
| "truthy (Some s) = (s \<noteq> [])"

text \<open>
  The host's \<open>mergeObject(original, other)\<close> on flat objects: the keys of \<open>other\<close> are
  written over \<open>original\<close>, and only \<open>original\<close> is changed. (Keys in dotted form,
  which the host would expand into nested objects, are outside the model.)
\<close>

definition mergeObject :: "(string \<rightharpoonup> 'd blob_value) \<Rightarrow> (string \<rightharpoonup> string) \<Rightarrow> (string \<rightharpoonup> 'd blob_value)" where
  "mergeObject original other = original ++ (map_option BString \<circ> other)"

text \<open>
  \<open>as_document_blob\<close>: returns the record and the entry as the call leaves it (the entry
  is mutated in place in the source). The first branch assigns \<open>ent.Name\<close>; the second
  is the expression statement \<open>flags.top_level_data.name;\<close>, which reads the override
  and assigns nothing, so the entry and its flags stay as they are. \<open>save\<close> is the
  entry's serialisation, \<open>ent.save()\<close>.
\<close>

definition as_document_blob :: "(LiveEntry \<Rightarrow> 'd) \<Rightarrow> LiveEntry \<Rightarrow> (string \<rightharpoonup> 'd blob_value) \<times> LiveEntry" where
  "as_document_blob save ent =
     (let flags = Flags ent;
          ent' =
            (if truthy (top_level_data flags ''name'')
                \<and> top_level_data flags ''name'' \<noteq> Some (orig_doc_name flags)
             then ent\<lparr>Name := the (top_level_data flags ''name'')\<rparr>
             else if truthy (Some (Name ent)) \<and> Name ent \<noteq> orig_doc_name flags
             then ent
             else ent);
          result = mergeObject
            [''_id'' \<mapsto> BString (RegistryID ent'), ''data'' \<mapsto> BData (save ent')]
            (top_level_data flags)
      in (result, ent'))"

section \<open>The host's documents, collections and registries\<close>

text \<open>\<open>EntryType\<close> is a string enumeration of the entry kinds.\<close>

type_synonym EntryType = string

text \<open>
  A host document, with the fields the wrapper reads: \<open>data._id\<close>, \<open>type\<close>,
  \<open>data._source.data\<close> (the raw persisted fields), \<open>data.data\<close> (the fields as the
  host prepared them) and, for an actor, the documents of its embedded \<open>items\<close>.
  Field values are of an arbitrary type \<open>'v\<close>; a field that is absent reads as \<open>None\<close>.
\<close>

datatype 'v document =
  Document (doc_id: string) (doc_type: EntryType)
    (source_data: "string \<rightharpoonup> 'v") (system_data: "string \<rightharpoonup> 'v")
    (embedded_items: "'v document list")

text \<open>
  A collection of the host (world, embedded or compendium collection): its documents in
  order (\<open>.contents\<close>) and the document that owns it (\<open>.parent\<close>), if any.
\<close>

record 'v collection =
  contents :: "'v document list"
  parent :: "'v document option"

text \<open>\<open>collection.get(id)\<close>, and \<open>getDocument(id)\<close> on a compendium collection once its
  promise has settled: the document with that id, or nothing.\<close>

definition coll_get :: "'v collection \<Rightarrow> string \<Rightarrow> 'v document option" where
  "coll_get c i = find (\<lambda>d. doc_id d = i) (contents c)"

definition getDocument :: "'v collection \<Rightarrow> string \<Rightarrow> 'v document option" where
  "getDocument c i = coll_get c i"

text \<open>\<open>actor.items\<close>: the embedded item collection, owned by the actor.\<close>

definition actor_items :: "'v document \<Rightarrow> 'v collection" where
  "actor_items a = \<lparr>contents = embedded_items a, parent = Some a\<rparr>"

text \<open>A token (\<open>token.actor\<close> is null once its actor is deleted) and a scene.\<close>

record 'v token =
  token_actor :: "'v document option"

record 'v scene =
  tokens :: "string \<rightharpoonup> 'v token"

text \<open>The global \<open>game\<close>: the pack and scene registries and the two world collections.\<close>

record 'v game =
  packs :: "string \<rightharpoonup> 'v collection"
  actors :: "'v collection"
  items :: "'v collection"
  scenes :: "string \<rightharpoonup> 'v scene"

text \<open>
  Modelled from the spec: the descriptor type \<open>FoundryRegNameParsed\<close> is declared in
  \<open>foundry-reg\<close>, outside the files at hand. One constructor per value of \<open>cfg.src\<close>
  (\<open>comp_actor\<close>, \<open>game_actor\<close>, \<open>scene_token\<close>, \<open>comp\<close>, \<open>comp_core\<close>, \<open>game\<close>,
  \<open>scene\<close>), with the fields the spec's data model lists for it: \<open>Src_comp_actor
  comp_id token_id actor_id\<close>, \<open>Src_game_actor actor_id\<close>, \<open>Src_scene_token scene_id
  token_id\<close>, \<open>Src_comp comp_id\<close>, \<open>Src_scene scene_id\<close>. Where the spec lists one
  actor id for \<open>comp_actor\<close>, the source reads two properties, \<open>cfg.token_id\<close> for
  the fetch and \<open>cfg.actor_id\<close> for the error message, so the constructor carries both.
\<close>

datatype FoundryRegNameParsed =
    Src_comp_actor string string string
  | Src_game_actor string
  | Src_scene_token string string
  | Src_comp string
  | Src_comp_core
  | Src_game
  | Src_scene string

text \<open>
  Errors as values: one constructor per \<open>throw new Error(...)\<close> of the source, carrying
  the ids its message interpolates, and \<open>TypeError\<close> for a property read or a method
  call on \<open>undefined\<close> or on a value that lacks the method.
\<close>

datatype error =
    Couldnt_find_pack string
  | Pack_didnt_have_actor string string
  | Couldnt_find_game_actor string
  | Couldnt_find_scene string
  | Couldnt_find_token string string
  | Token_has_no_actor string
  | Pack_does_not_exist string
  | Core_pack_does_not_exist string
  | Invalid_scene_id string
  | TypeError

text \<open>What is sent to the host by a creation: \<open>{type, name, data}\<close> per record, and the
  modification context \<open>{parent?, pack}\<close>.\<close>

record 'v create_data =
  cd_type :: EntryType
  cd_name :: "'v option"
  cd_data :: "string \<rightharpoonup> 'v"

record 'v opts =
  opt_parent :: "'v document option"
  opt_pack :: "string option"

text \<open>What a host call hands back: the value itself, or a promise of it.\<close>

datatype 'a returned = Array 'a | Promise 'a

text \<open>
  What the wrapper uses and the files at hand do not define: the helpers \<open>get_pack_id\<close>
  and \<open>is_actor_type\<close> of this repository, JavaScript's \<open>!=\<close> between a field read
  (\<open>None\<close> when absent) and a criterion value, and the host's \<open>getDocuments\<close> (with the
  criteria and the kind restriction) and \<open>createDocuments\<close>.
\<close>

record 'v ext =
  get_pack_id :: "EntryType \<Rightarrow> string"
  is_actor_type :: "EntryType \<Rightarrow> bool"
  loose_ne :: "'v option \<Rightarrow> 'v \<Rightarrow> bool"
  getDocuments :: "'v collection \<Rightarrow> (string \<times> 'v) list \<Rightarrow> EntryType \<Rightarrow> 'v document list"
  createDocuments :: "'v collection \<Rightarrow> 'v create_data list \<Rightarrow> 'v opts \<Rightarrow> 'v document list returned"

section \<open>The collection resolver (\<open>NuWrapper.lookup_collection\<close>)\<close>

text \<open>
  The callback handed to \<open>.then\<close> in the \<open>comp_actor\<close> branch, as the outcome of the
  promise that \<open>.then\<close> returns.
\<close>

definition comp_actor_then :: "'v collection \<Rightarrow> string \<Rightarrow> string \<Rightarrow> string \<Rightarrow> error + 'v collection" where
  "comp_actor_then actor_pack comp_id token_id actor_id =
     (case getDocument actor_pack token_id of
        None \<Rightarrow> Inl (Pack_didnt_have_actor comp_id actor_id)
      | Some actor \<Rightarrow> Inr (actor_items actor))"

text \<open>
  \<open>lookup_collection\<close> is an async function: its promise rejects with what the body
  throws (\<open>Inl\<close>), and otherwise resolves with what the body returns (\<open>Inr\<close>), which is
  \<open>undefined\<close> (\<open>None\<close>) where the body ends without a \<open>return\<close>. In the \<open>comp_actor\<close>
  branch the promise of \<open>.then\<close> is neither returned nor awaited; in the \<open>comp\<close> and
  \<open>comp_core\<close> branches nothing follows the check of the pack.
\<close>

definition lookup_collection :: "'v ext \<Rightarrow> 'v game \<Rightarrow> EntryType \<Rightarrow> FoundryRegNameParsed \<Rightarrow> error + 'v collection option" where
  "lookup_collection x g entry_type cfg =
     (case cfg of
        Src_comp_actor comp_id token_id actor_id \<Rightarrow>
          (case packs g comp_id of
             None \<Rightarrow> Inl (Couldnt_find_pack comp_id)
           | Some actor_pack \<Rightarrow>
               (let dropped = comp_actor_then actor_pack comp_id token_id actor_id in Inr None))
      | Src_game_actor actor_id \<Rightarrow>
          (case coll_get (actors g) actor_id of
             None \<Rightarrow> Inl (Couldnt_find_game_actor actor_id)
           | Some actor \<Rightarrow> Inr (Some (actor_items actor)))
      | Src_scene_token scene_id token_id \<Rightarrow>
          (case scenes g scene_id of
             None \<Rightarrow> Inl (Couldnt_find_scene scene_id)
           | Some scene \<Rightarrow>
               (case tokens scene token_id of
                  None \<Rightarrow> Inl (Couldnt_find_token token_id scene_id)
                | Some token \<Rightarrow>
                    (case token_actor token of
                       None \<Rightarrow> Inl (Token_has_no_actor token_id)
                     | Some actor \<Rightarrow> Inr (Some (actor_items actor)))))
      | Src_comp comp_id \<Rightarrow>
          (case packs g comp_id of
             None \<Rightarrow> Inl (Pack_does_not_exist comp_id)
           | Some pack \<Rightarrow> Inr None)
      | Src_comp_core \<Rightarrow>
          (let comp_id = get_pack_id x entry_type in
           case packs g comp_id of
             None \<Rightarrow> Inl (Core_pack_does_not_exist comp_id)
           | Some pack \<Rightarrow> Inr None)
      | Src_game \<Rightarrow>
          (if is_actor_type x entry_type then Inr (Some (actors g)) else Inr (Some (items g)))
      | Src_scene scene_id \<Rightarrow> Inr (Some (actors g)))"

section \<open>The wrapper (\<open>NuWrapper\<close>)\<close>

text \<open>
  The wrapper's fields. \<open>collection\<close> is the promise of \<open>lookup_collection\<close>, as it
  settles; \<open>scene\<close> and \<open>pack\<close> are \<open>None\<close> where the source holds \<open>null\<close>.
\<close>

record 'v NuWrapper =
  entry_type :: EntryType
  collection :: "error + 'v collection option"
  scene :: "'v scene option"
  pack :: "string option"

text \<open>The constructor; it throws when a \<open>scene\<close> descriptor names no scene.\<close>

definition NuWrapper_new :: "'v ext \<Rightarrow> 'v game \<Rightarrow> EntryType \<Rightarrow> FoundryRegNameParsed \<Rightarrow> error + 'v NuWrapper" where
  "NuWrapper_new x g type cfg =
     (let this_pack =
            (case cfg of
               Src_comp comp_id \<Rightarrow> Some comp_id
             | Src_comp_actor comp_id token_id actor_id \<Rightarrow> Some comp_id
             | Src_comp_core \<Rightarrow> Some (get_pack_id x type)
             | _ \<Rightarrow> None)
      in case (case cfg of
                 Src_scene scene_id \<Rightarrow>
                   (case scenes g scene_id of
                      None \<Rightarrow> Inl (Invalid_scene_id scene_id)
                    | Some s \<Rightarrow> Inr (Some s))
               | _ \<Rightarrow> Inr None) of
           Inl e \<Rightarrow> Inl e
         | Inr this_scene \<Rightarrow>
             Inr \<lparr>entry_type = type,
                  collection = lookup_collection x g type cfg,
                  scene = this_scene,
                  pack = this_pack\<rparr>)"

text \<open>
  Awaiting \<open>this.collection\<close> and then reading a property of it or calling a method on
  it: the rejection is passed on, and \<open>undefined\<close> raises \<open>TypeError\<close>.
\<close>

definition awaited :: "error + 'a option \<Rightarrow> error + 'a" where
  "awaited p = (case p of Inl e \<Rightarrow> Inl e | Inr None \<Rightarrow> Inl TypeError | Inr (Some c) \<Rightarrow> Inr c)"

text \<open>\<open>non_scene_opts\<close>: the modification context, with the parent when there is one.\<close>

definition non_scene_opts :: "'v NuWrapper \<Rightarrow> error + 'v opts" where
  "non_scene_opts this =
     (case awaited (collection this) of
        Inl e \<Rightarrow> Inl e
      | Inr c \<Rightarrow>
          (case parent c of
             Some p \<Rightarrow> Inr \<lparr>opt_parent = Some p, opt_pack = pack this\<rparr>
           | None \<Rightarrow> Inr \<lparr>opt_parent = None, opt_pack = pack this\<rparr>))"

text \<open>What an operation does besides returning: console output and calls to the host.\<close>

datatype 'v effect =
    Console_error string
  | Create_documents "'v create_data list" "'v opts"

text \<open>The result record \<open>GetResult\<close>: \<open>{data, entity, id, type}\<close>.\<close>

record ('v, 'd) GetResult =
  res_data :: 'd
  res_entity :: "'v document"
  res_id :: string
  res_type :: EntryType

text \<open>\<open>reg_data[index]\<close>: \<open>undefined\<close> past the end of the array.\<close>

definition at_index :: "'a list \<Rightarrow> nat \<Rightarrow> 'a option" where
  "at_index xs i = (if i < length xs then Some (xs ! i) else None)"

text \<open>
  \<open>create_many\<close>: the effects in order, and how the promise settles. The value of
  \<open>createDocuments\<close> is used as it comes, without \<open>await\<close>: \<open>.map\<close> on it works when
  it is an array and raises \<open>TypeError\<close> when it is a promise.
\<close>

definition create_many :: "'v ext \<Rightarrow> 'v NuWrapper \<Rightarrow> (string \<rightharpoonup> 'v) list \<Rightarrow> 'v effect list \<times> (error + ('v, (string \<rightharpoonup> 'v) option) GetResult list)" where
  "create_many x this reg_data =
     (if scene this \<noteq> None
      then ([Console_error ''Creating tokens via registry is not yet supported''], Inr [])
      else
        case awaited (collection this) of
          Inl e \<Rightarrow> ([], Inl e)
        | Inr c \<Rightarrow>
            (let blobs = map (\<lambda>d. \<lparr>cd_type = entry_type this, cd_name = d ''name'', cd_data = d\<rparr>) reg_data
             in case non_scene_opts this of
                  Inl e \<Rightarrow> ([], Inl e)
                | Inr context \<Rightarrow>
                    (case createDocuments x c blobs context of
                       Promise docs \<Rightarrow> ([Create_documents blobs context], Inl TypeError)
                     | Array new_docs \<Rightarrow>
                         ([Create_documents blobs context],
                          Inr (map (\<lambda>(item, index).
                                 \<lparr>res_data = at_index reg_data index,
                                  res_entity = item,
                                  res_id = doc_id item,
                                  res_type = entry_type this\<rparr>)
                               (zip new_docs [0 ..< length new_docs]))))))"

text \<open>\<open>get\<close>: by \<open>getDocument\<close> when the wrapper has a pack, by \<open>collection.get\<close> otherwise.\<close>

definition get :: "'v NuWrapper \<Rightarrow> string \<Rightarrow> error + ('v, string \<rightharpoonup> 'v) GetResult option" where
  "get this i =
     (case awaited (collection this) of
        Inl e \<Rightarrow> Inl e
      | Inr c \<Rightarrow>
          (let fi = (if truthy (pack this) then getDocument c i else coll_get c i)
           in case fi of
                None \<Rightarrow> Inr None
              | Some d \<Rightarrow>
                  if doc_type d = entry_type this
                  then Inr (Some \<lparr>res_data = system_data d,
                                  res_entity = d,
                                  res_id = i,
                                  res_type = entry_type this\<rparr>)
                  else Inr None))"

text \<open>The loop of \<open>query\<close> over \<open>Object.entries(query_obj)\<close>, leaving at the first
  criterion that fails.\<close>

fun check_each :: "'v ext \<Rightarrow> 'v document \<Rightarrow> (string \<times> 'v) list \<Rightarrow> bool" where
  "check_each x doc [] = True"
| "check_each x doc ((k, v) # kvs) =
     (if loose_ne x (source_data doc k) v then False else check_each x doc kvs)"

text \<open>The callback of \<open>all.filter\<close> in \<open>query\<close>.\<close>

definition query_keep :: "'v ext \<Rightarrow> 'v NuWrapper \<Rightarrow> (string \<times> 'v) list \<Rightarrow> 'v document \<Rightarrow> bool" where
  "query_keep x this query_obj doc =
     (if doc_type doc \<noteq> entry_type this then False else check_each x doc query_obj)"

text \<open>
  \<open>query\<close>. With a pack, the host's \<open>getDocuments\<close> is given \<open>{...query_obj, type}\<close>:
  the criteria but for a key \<open>type\<close>, and the wrapper's kind.
\<close>

definition query :: "'v ext \<Rightarrow> 'v NuWrapper \<Rightarrow> (string \<times> 'v) list \<Rightarrow> error + ('v, string \<rightharpoonup> 'v) GetResult list" where
  "query x this query_obj =
     (case awaited (collection this) of
        Inl e \<Rightarrow> Inl e
      | Inr c \<Rightarrow>
          (let all = (if truthy (pack this)
                      then getDocuments x c (filter (\<lambda>(k, v). k \<noteq> ''type'') query_obj) (entry_type this)
                      else filter (query_keep x this query_obj) (contents c))
           in Inr (map (\<lambda>e. \<lparr>res_data = system_data e,
                             res_entity = e,
                             res_id = doc_id e,
                             res_type = entry_type this\<rparr>) all)))"

text \<open>\<open>enumerate\<close>: the query with no criterion.\<close>

definition enumerate_all :: "'v ext \<Rightarrow> 'v NuWrapper \<Rightarrow> error + ('v, string \<rightharpoonup> 'v) GetResult list" where
  "enumerate_all x this = query x this []"

section \<open>The stat roll flow (stat.ts)\<close>

text \<open>\<open>LancerFlowState.StatRollData\<close>, with the fields the flow writes and reads; \<open>'o\<close> is
  the serialised form of the accuracy and difficulty data.\<close>

record 'o StatRollData =
  title :: string
  bonus :: "int option"
  acc_diff :: 'o
  roll_str :: string
  effect :: "string option"

text \<open>What the flow does to the outside: the prompt, the dice roll, the chat card.\<close>

datatype 'a flow_effect =
    Open_sliding_hud string
  | Roll_evaluate string
  | Roll_get_tooltip
  | Render_template_step 'a string string "string option"

text \<open>What \<open>rollStatMacro\<close>'s promise resolves with.\<close>

datatype stat_result = Undefined | Rendered

text \<open>
  What the flow calls and the files at hand do not define, for actors \<open>'a\<close>, items \<open>'i\<close>
  and accuracy data \<open>'c\<close>: \<open>fromUuidSync\<close> (\<open>None\<close> when it throws), \<open>resolve_dotpath\<close>,
  \<open>AccDiffData.fromParams\<close>, \<open>openSlidingHud\<close> (\<open>None\<close> when its promise rejects),
  \<open>toObject\<close>, \<open>fromObject\<close>, \<open>base.total\<close>, the item's name and rank,
  \<open>game.system.id\<close>, and the string method \<open>toUpperCase\<close>.
\<close>

record ('a, 'i, 'c, 'o) flow_ext =
  actor_fromUuidSync :: "string \<Rightarrow> 'a option"
  item_fromUuidSync :: "string \<Rightarrow> 'i option"
  resolve_dotpath :: "'a \<Rightarrow> string \<Rightarrow> int option"
  fromParams_actor :: "'a \<Rightarrow> string \<Rightarrow> 'c"
  fromParams_item :: "'i \<Rightarrow> string \<Rightarrow> 'c"
  openSlidingHud :: "string \<Rightarrow> 'c \<Rightarrow> 'c option"
  toObject :: "'c \<Rightarrow> 'o"
  fromObject :: "'o \<Rightarrow> 'c"
  base_total :: "'c \<Rightarrow> int"
  item_name :: "'i \<Rightarrow> string"
  curr_rank :: "'i \<Rightarrow> int"
  system_id :: string
  toUpperCase :: "string \<Rightarrow> string"

text \<open>\<open>s.split(".")\<close>: never empty, the empty string gives one empty part.\<close>

fun split_dot :: "string \<Rightarrow> string list" where
  "split_dot [] = [[]]"
| "split_dot (c # cs) =
     (if c = CHR ''.'' then [] # split_dot cs
      else case split_dot cs of [] \<Rightarrow> [[c]] | p # ps \<Rightarrow> (c # p) # ps)"

text \<open>A whole number in a template literal: its decimal digits, with a sign.\<close>

fun show_nat :: "nat \<Rightarrow> string" where
  "show_nat n =
     (if n < 10 then [char_of (48 + n)]
      else show_nat (n div 10) @ [char_of (48 + n mod 10)])"

definition show_int :: "int \<Rightarrow> string" where
  "show_int i = (if i < 0 then CHR ''-'' # show_nat (nat (- i)) else show_nat (nat i))"

text \<open>
  \<open>rollStatMacro\<close>. The local \<open>actor\<close> is declared without a value (the line that
  resolved it is commented out), and the function returns when it is falsy.
\<close>

definition rollStatMacro :: "('a, 'i, 'c, 'o) flow_ext \<Rightarrow> 'o StatRollData \<Rightarrow> 'a flow_effect list \<times> stat_result" where
  "rollStatMacro fx data =
     (let actor = (None :: 'a option) in
      case actor of
        None \<Rightarrow> ([], Undefined)
      | Some the_actor \<Rightarrow>
          (let acc = fromObject fx (acc_diff data);
               acc_str = (if base_total fx acc \<noteq> 0
                          then '' + '' @ show_int (base_total fx acc) @ ''d6kh1''
                          else []);
               formula = ''1d20+'' @ show_int (case bonus data of None \<Rightarrow> 0 | Some b \<Rightarrow> b) @ acc_str;
               template = ''systems/'' @ system_id fx @ ''/templates/chat/stat-roll-card.hbs''
           in ([Roll_evaluate formula, Roll_get_tooltip,
                Render_template_step the_actor template (title data) (effect data)],
               Rendered)))"

text \<open>
  \<open>prepareStatMacro\<close> and \<open>prepareSkillMacro\<close>: the effects, and whether the promise
  resolves (\<open>Some ()\<close>) or rejects (\<open>None\<close>).
\<close>

definition prepareStatMacro :: "('a, 'i, 'c, 'o) flow_ext \<Rightarrow> string \<Rightarrow> string \<Rightarrow> 'a flow_effect list \<times> unit option" where
  "prepareStatMacro fx actor_ref statKey =
     (case actor_fromUuidSync fx actor_ref of
        None \<Rightarrow> ([], None)
      | Some actor \<Rightarrow>
          (let statPath = split_dot statKey;
               b = resolve_dotpath fx actor statKey;
               acc = fromParams_actor fx actor (toUpperCase fx (last statPath))
           in case openSlidingHud fx ''hase'' acc of
                None \<Rightarrow> ([Open_sliding_hud ''hase''], None)
              | Some acc' \<Rightarrow>
                  (let mData = \<lparr>title = toUpperCase fx (last statPath),
                                bonus = b,
                                acc_diff = toObject fx acc',
                                roll_str = ''1d20'',
                                effect = None\<rparr>
                   in (Open_sliding_hud ''hase'' # fst (rollStatMacro fx mData), Some ()))))"

definition prepareSkillMacro :: "('a, 'i, 'c, 'o) flow_ext \<Rightarrow> string \<Rightarrow> 'a flow_effect list \<times> unit option" where
  "prepareSkillMacro fx item_ref =
     (case item_fromUuidSync fx item_ref of
        None \<Rightarrow> ([], None)
      | Some item \<Rightarrow>
          (let acc = fromParams_item fx item (item_name fx item)
           in case openSlidingHud fx ''hase'' acc of
                None \<Rightarrow> ([Open_sliding_hud ''hase''], None)
              | Some acc' \<Rightarrow>
                  (let skillData = \<lparr>title = item_name fx item,
                                    bonus = Some (curr_rank fx item * 2),
                                    acc_diff = toObject fx acc',
                                    roll_str = ''1d20'',
                                    effect = None\<rparr>
                   in (Open_sliding_hud ''hase'' # fst (rollStatMacro fx skillData), Some ()))))"

text \<open>The effects that roll dice or render the chat card.\<close>

fun rolls_or_renders :: "'a flow_effect \<Rightarrow> bool" where
  "rolls_or_renders (Open_sliding_hud h) = False"
| "rolls_or_renders (Roll_evaluate f) = True"
| "rolls_or_renders Roll_get_tooltip = True"
| "rolls_or_renders (Render_template_step a t n e) = True"

section \<open>Classifying descriptors and documents\<close>

text \<open>The descriptors that name a pack, and the one that names a scene.\<close>

fun pack_sourced :: "FoundryRegNameParsed \<Rightarrow> bool" where
  "pack_sourced (Src_comp comp_id) = True"
| "pack_sourced (Src_comp_actor comp_id token_id actor_id) = True"
| "pack_sourced Src_comp_core = True"
| "pack_sourced cfg = False"

fun scene_sourced :: "FoundryRegNameParsed \<Rightarrow> bool" where
  "scene_sourced (Src_scene scene_id) = True"
| "scene_sourced cfg = False"

text \<open>
  A document matches the criteria of a query when its kind is the wrapper's and, for each
  criterion, \<open>!=\<close> between its raw persisted field and the required value is false.
\<close>

definition matches_criteria :: "'v ext \<Rightarrow> EntryType \<Rightarrow> (string \<times> 'v) list \<Rightarrow> 'v document \<Rightarrow> bool" where
  "matches_criteria x kind criteria d =
     (doc_type d = kind \<and> list_all (\<lambda>(k, v). \<not> loose_ne x (source_data d k) v) criteria)"

section \<open>Example inputs\<close>

text \<open>
  A host whose field values are strings: the core pack of a kind is \<open>world.<kind>\<close>,
  \<open>!=\<close> on a field is inequality with the required string, and \<open>createDocuments\<close>
  hands back a promise of the documents it made.
\<close>

definition example_ext :: "string ext" where
  "example_ext =
     \<lparr>get_pack_id = (\<lambda>t. ''world.'' @ t),
      is_actor_type = (\<lambda>t. t = ''mech'' \<or> t = ''pilot''),
      loose_ne = (\<lambda>a v. a \<noteq> Some v),
      getDocuments = (\<lambda>c q t. filter (\<lambda>d. doc_type d = t) (contents c)),
      createDocuments = (\<lambda>c blobs ctx.
        Promise (map (\<lambda>b. Document ''new'' (cd_type b) (cd_data b) (cd_data b) []) blobs))\<rparr>"

text \<open>A weapon, a mech that owns it, and a world with one pack and one scene with one token.\<close>

definition rifle :: "string document" where
  "rifle = Document ''w1'' ''mech_weapon'' [''name'' \<mapsto> ''Rifle''] [''name'' \<mapsto> ''Rifle''] []"

definition everest :: "string document" where
  "everest = Document ''a1'' ''mech'' [''name'' \<mapsto> ''Everest''] [''name'' \<mapsto> ''Everest''] [rifle]"

definition example_game :: "string game" where
  "example_game =
     \<lparr>packs = [''world.mech'' \<mapsto> \<lparr>contents = [everest], parent = None\<rparr>],
      actors = \<lparr>contents = [everest], parent = None\<rparr>,
      items = \<lparr>contents = [rifle], parent = None\<rparr>,
      scenes = [''s1'' \<mapsto> \<lparr>tokens = [''t1'' \<mapsto> \<lparr>token_actor = Some everest\<rparr>]\<rparr>]\<rparr>"

text \<open>
  Three entries whose document was loaded under the name \<open>Y\<close> and whose own name is now
  \<open>Z\<close>: one with the top-level name still \<open>Y\<close>, one with an empty top-level name,
  one with no top-level name.
\<close>

definition entry_B :: LiveEntry where
  "entry_B = \<lparr>Name = ''Z'', RegistryID = ''id1'',
       Flags = \<lparr>orig_doc_name = ''Y'', top_level_data = [''name'' \<mapsto> ''Y'']\<rparr>\<rparr>"

definition entry_empty :: LiveEntry where
  "entry_empty = \<lparr>Name = ''Z'', RegistryID = ''id1'',
       Flags = \<lparr>orig_doc_name = ''Y'', top_level_data = [''name'' \<mapsto> '''']\<rparr>\<rparr>"

definition entry_absent :: LiveEntry where
  "entry_absent = \<lparr>Name = ''Z'', RegistryID = ''id1'',
       Flags = \<lparr>orig_doc_name = ''Y'', top_level_data = Map.empty\<rparr>\<rparr>"

section \<open>The blob builder's name branches\<close>

text \<open>
  Claim C1. With the top-level name equal to the loaded name \<open>Y\<close> and the entry's own
  name \<open>Z\<close>, the record should be named \<open>Z\<close> and the top-level override should become
  \<open>Z\<close>. On \<open>entry_B\<close> the builder does neither: the record's \<open>name\<close> is \<open>Y\<close>, and
  the top-level override is still \<open>Y\<close> afterwards; only the entry's own name is \<open>Z\<close>.
\<close>

theorem as_document_blob_case_B:
  "fst (as_document_blob Name entry_B) ''name'' = Some (BString ''Y'')
   \<and> top_level_data (Flags (snd (as_document_blob Name entry_B))) ''name'' = Some ''Y''
   \<and> Name (snd (as_document_blob Name entry_B)) = ''Z''"
  by (simp add: as_document_blob_def entry_B_def mergeObject_def map_add_def Let_def)

text \<open>
  Claim C9. When the top-level name is absent or empty, the builder leaves the entry's own
  name as it is, whatever the loaded name: the branch in which the top-level name wins
  needs that name to be non-empty.
\<close>

theorem blob_keeps_name_when_override_falsy:
  "\<not> truthy (top_level_data (Flags ent) ''name'')
   \<Longrightarrow> Name (snd (as_document_blob save ent)) = Name ent"
  by (simp add: as_document_blob_def Let_def)

theorem blob_keeps_name_when_override_falsy_witness:
  "\<not> truthy (top_level_data (Flags entry_empty) ''name'')
   \<and> top_level_data (Flags entry_empty) ''name'' \<noteq> Some (orig_doc_name (Flags entry_empty))
   \<and> Name (snd (as_document_blob Name entry_empty)) = ''Z''
   \<and> top_level_data (Flags entry_absent) ''name'' = None
   \<and> Name (snd (as_document_blob Name entry_absent)) = ''Z''"
  using blob_keeps_name_when_override_falsy [of entry_empty Name]
    blob_keeps_name_when_override_falsy [of entry_absent Name]
  by (simp add: entry_empty_def entry_absent_def)

section \<open>The resolver on pack descriptors\<close>

text \<open>
  Claim C2. For a \<open>comp\<close> descriptor whose pack is registered, and for a \<open>comp_core\<close>
  descriptor whose derived pack is registered, the resolver should yield the pack
  collection. In the example world the pack \<open>world.mech\<close> is registered, and in both
  cases the resolver's promise resolves with \<open>undefined\<close>.
\<close>

theorem lookup_collection_comp_undefined:
  "packs example_game ''world.mech'' = Some \<lparr>contents = [everest], parent = None\<rparr>
   \<and> lookup_collection example_ext example_game ''mech'' (Src_comp ''world.mech'') = Inr None
   \<and> lookup_collection example_ext example_game ''mech'' Src_comp_core = Inr None"
  by (simp add: lookup_collection_def example_game_def example_ext_def)

text \<open>
  Claim C3. For a \<open>comp_actor\<close> descriptor whose pack and actor exist, the resolver should
  yield the actor's embedded items, and it should fail when the actor is absent. In the
  example world the promise of \<open>.then\<close> holds the items of the actor \<open>a1\<close>, and fails
  for the unknown id \<open>zz\<close> (naming \<open>cfg.actor_id\<close>), but the resolver's own promise resolves with \<open>undefined\<close>
  in both cases.
\<close>

theorem lookup_collection_comp_actor_undefined:
  "comp_actor_then \<lparr>contents = [everest], parent = None\<rparr> ''world.mech'' ''a1'' ''a1''
       = Inr (actor_items everest)
   \<and> lookup_collection example_ext example_game ''mech_weapon''
         (Src_comp_actor ''world.mech'' ''a1'' ''a1'') = Inr None
   \<and> comp_actor_then \<lparr>contents = [everest], parent = None\<rparr> ''world.mech'' ''zz'' ''yy''
       = Inl (Pack_didnt_have_actor ''world.mech'' ''yy'')
   \<and> lookup_collection example_ext example_game ''mech_weapon''
         (Src_comp_actor ''world.mech'' ''zz'' ''yy'') = Inr None"
  by (simp add: lookup_collection_def example_game_def example_ext_def comp_actor_then_def
      getDocument_def coll_get_def everest_def)

section \<open>The constructor\<close>

text \<open>
  Claim C8. A wrapper that the constructor returns has a pack exactly when its descriptor
  is \<open>comp\<close>, \<open>comp_actor\<close> or \<open>comp_core\<close>, has a scene exactly when its descriptor
  is the bare \<open>scene\<close>, and so never has both.
\<close>

theorem constructor_scene_pack_exclusive:
  "NuWrapper_new x g t cfg = Inr w \<Longrightarrow>
     (pack w \<noteq> None) = pack_sourced cfg
     \<and> (scene w \<noteq> None) = scene_sourced cfg
     \<and> \<not> (scene w \<noteq> None \<and> pack w \<noteq> None)"
  by (cases cfg) (auto simp: NuWrapper_new_def split: option.splits)

theorem constructor_scene_pack_exclusive_witness:
  "(\<exists>w. NuWrapper_new example_ext example_game ''mech'' (Src_scene ''s1'') = Inr w
        \<and> scene w \<noteq> None \<and> pack w = None)
   \<and> (\<exists>w. NuWrapper_new example_ext example_game ''mech'' Src_comp_core = Inr w
        \<and> scene w = None \<and> pack w = Some ''world.mech'')"
proof -
  let ?a = "NuWrapper_new example_ext example_game ''mech'' (Src_scene ''s1'')"
  let ?b = "NuWrapper_new example_ext example_game ''mech'' Src_comp_core"
  obtain wa where a: "?a = Inr wa"
    by (simp add: NuWrapper_new_def example_game_def)
  obtain wb where b: "?b = Inr wb"
    by (simp add: NuWrapper_new_def example_game_def)
  have "pack wb = Some ''world.mech''"
    using b by (auto simp: NuWrapper_new_def example_ext_def)
  with constructor_scene_pack_exclusive [OF a] constructor_scene_pack_exclusive [OF b] a b
  show ?thesis by auto
qed

section \<open>Creation\<close>

text \<open>
  Claim C4, as amended. For a wrapper built from a bare \<open>scene\<close> descriptor and any list
  of records, \<open>create_many\<close> returns the empty sequence, writes one message with
  \<open>console.error\<close>, and sends nothing to the host.
\<close>

theorem create_many_scene_is_noop:
  "NuWrapper_new x g t (Src_scene scene_id) = Inr w \<Longrightarrow>
     create_many x w reg_data =
       ([Console_error ''Creating tokens via registry is not yet supported''], Inr [])"
  by (auto simp: NuWrapper_new_def create_many_def split: option.splits)

theorem create_many_scene_is_noop_witness:
  "\<exists>w. NuWrapper_new example_ext example_game ''mech'' (Src_scene ''s1'') = Inr w
     \<and> create_many example_ext w [[''name'' \<mapsto> ''Sword'']] =
         ([Console_error ''Creating tokens via registry is not yet supported''], Inr [])"
proof -
  obtain w where w: "NuWrapper_new example_ext example_game ''mech'' (Src_scene ''s1'') = Inr w"
    by (simp add: NuWrapper_new_def example_game_def)
  from create_many_scene_is_noop [OF w] w show ?thesis by blast
qed

text \<open>
  Claim C4 as stated fails for the token-scoped descriptor \<open>scene_token\<close>: its wrapper
  has no scene, and \<open>create_many\<close> sends the creation to the host, under the token's
  actor as parent.
\<close>

theorem create_many_scene_token_creates:
  "(case NuWrapper_new example_ext example_game ''mech_weapon'' (Src_scene_token ''s1'' ''t1'') of
      Inl e \<Rightarrow> []
    | Inr w \<Rightarrow> fst (create_many example_ext w [[''name'' \<mapsto> ''Sword'']]))
   = [Create_documents
        [\<lparr>cd_type = ''mech_weapon'', cd_name = Some ''Sword'', cd_data = [''name'' \<mapsto> ''Sword'']\<rparr>]
        \<lparr>opt_parent = Some everest, opt_pack = None\<rparr>]"
  by (simp add: NuWrapper_new_def create_many_def lookup_collection_def example_game_def
      example_ext_def awaited_def non_scene_opts_def actor_items_def)

section \<open>Reading\<close>

text \<open>
  Claim C5. On every wrapper whose collection has resolved, \<open>get\<close> should return null
  for an id that no document has, and the result for the document otherwise, raising
  nothing. In the example world the pack \<open>world.mech\<close> holds the mech \<open>a1\<close>; the
  wrapper of kind \<open>mech\<close> built from the \<open>comp\<close> descriptor of that pack has a
  collection that resolved with \<open>undefined\<close>, and \<open>get\<close> raises \<open>TypeError\<close> on
  it, for the id \<open>a1\<close> and for the unknown id \<open>zz\<close> alike. The same holds of the
  wrapper built from the \<open>comp_core\<close> descriptor.
\<close>

theorem get_on_pack_wrapper_raises:
  "(case NuWrapper_new example_ext example_game ''mech'' (Src_comp ''world.mech'') of
      Inl e \<Rightarrow> None
    | Inr w \<Rightarrow> Some (pack w, collection w, get w ''a1'', get w ''zz''))
     = Some (Some ''world.mech'', Inr None, Inl TypeError, Inl TypeError)
   \<and> (case NuWrapper_new example_ext example_game ''mech'' Src_comp_core of
      Inl e \<Rightarrow> None
    | Inr w \<Rightarrow> Some (pack w, collection w, get w ''a1'', get w ''zz''))
     = Some (Some ''world.mech'', Inr None, Inl TypeError, Inl TypeError)
   \<and> coll_get \<lparr>contents = [everest], parent = None\<rparr> ''a1'' = Some everest
   \<and> doc_type everest = ''mech''"
  by (simp add: NuWrapper_new_def lookup_collection_def example_game_def example_ext_def
      get_def awaited_def coll_get_def everest_def)

text \<open>
  Where the collection resolved with a collection, \<open>get\<close> returns null when no
  document has the id and when the document found is of another kind, and the result
  for the document, of the wrapper's kind, otherwise. The wrappers built from the
  \<open>game\<close> descriptor are such.
\<close>

lemma get_on_collection:
  assumes "collection this = Inr (Some c)"
  shows "(coll_get c i = None \<longrightarrow> get this i = Inr None)
    \<and> (\<forall>d. coll_get c i = Some d \<and> doc_type d \<noteq> entry_type this \<longrightarrow> get this i = Inr None)
    \<and> (\<forall>d. coll_get c i = Some d \<and> doc_type d = entry_type this \<longrightarrow>
          get this i = Inr (Some \<lparr>res_data = system_data d, res_entity = d, res_id = i,
                                  res_type = entry_type this\<rparr>))"
  using assms by (auto simp: get_def awaited_def getDocument_def)

lemma get_on_collection_example:
  "(\<exists>w. NuWrapper_new example_ext example_game ''mech_weapon'' Src_game = Inr w
        \<and> get w ''zz'' = Inr None
        \<and> get w ''w1'' = Inr (Some \<lparr>res_data = system_data rifle, res_entity = rifle,
                                      res_id = ''w1'', res_type = ''mech_weapon''\<rparr>))
   \<and> (\<exists>w. NuWrapper_new example_ext example_game ''frame'' Src_game = Inr w
        \<and> get w ''w1'' = Inr None)"
proof -
  let ?c = "items example_game"
  obtain w where w: "NuWrapper_new example_ext example_game ''mech_weapon'' Src_game = Inr w"
    and cw: "collection w = Inr (Some ?c)" and tw: "entry_type w = ''mech_weapon''"
    by (simp add: NuWrapper_new_def lookup_collection_def example_ext_def)
  obtain u where u: "NuWrapper_new example_ext example_game ''frame'' Src_game = Inr u"
    and cu: "collection u = Inr (Some ?c)" and tu: "entry_type u = ''frame''"
    by (simp add: NuWrapper_new_def lookup_collection_def example_ext_def)
  have absent: "coll_get ?c ''zz'' = None"
    by (simp add: coll_get_def example_game_def rifle_def)
  have found: "coll_get ?c ''w1'' = Some rifle"
    by (simp add: coll_get_def example_game_def rifle_def)
  have kind: "doc_type rifle = ''mech_weapon''"
    by (simp add: rifle_def)
  have "get w ''zz'' = Inr None"
    using get_on_collection [OF cw, of "''zz''"] absent by simp
  moreover have "get w ''w1'' = Inr (Some \<lparr>res_data = system_data rifle, res_entity = rifle,
                                      res_id = ''w1'', res_type = ''mech_weapon''\<rparr>)"
    using get_on_collection [OF cw, of "''w1''"] found kind tw by simp
  moreover have "get u ''w1'' = Inr None"
    using get_on_collection [OF cu, of "''w1''"] found kind tu by simp
  ultimately show ?thesis using w u by blast
qed

text \<open>The loop of \<open>query\<close> holds exactly when every criterion holds.\<close>

lemma check_each_list_all:
  "check_each x doc q = list_all (\<lambda>(k, v). \<not> loose_ne x (source_data doc k) v) q"
  by (induction q) (auto split: if_splits)

lemma query_keep_matches: "query_keep x this q = matches_criteria x (entry_type this) q"
  by (rule ext) (simp add: query_keep_def matches_criteria_def check_each_list_all)

text \<open>
  Claim C6. On a wrapper without a pack whose collection has resolved, \<open>query\<close> returns
  the results for exactly the documents of the collection's contents that match the
  criteria, in the order of the contents, and the empty sequence when none matches.
\<close>

theorem query_non_pack_exact:
  assumes "collection this = Inr (Some c)" and "\<not> truthy (pack this)"
  shows "query x this q =
           Inr (map (\<lambda>e. \<lparr>res_data = system_data e, res_entity = e, res_id = doc_id e,
                            res_type = entry_type this\<rparr>)
                  (filter (matches_criteria x (entry_type this) q) (contents c)))
    \<and> (list_all (\<lambda>d. \<not> matches_criteria x (entry_type this) q d) (contents c)
         \<longrightarrow> query x this q = Inr [])"
proof -
  have q: "query x this q =
           Inr (map (\<lambda>e. \<lparr>res_data = system_data e, res_entity = e, res_id = doc_id e,
                            res_type = entry_type this\<rparr>)
                  (filter (matches_criteria x (entry_type this) q) (contents c)))"
    using assms by (simp add: query_def awaited_def query_keep_matches)
  moreover have "filter (matches_criteria x (entry_type this) q) (contents c) = []"
    if "list_all (\<lambda>d. \<not> matches_criteria x (entry_type this) q d) (contents c)"
    using that by (simp add: list_all_iff filter_empty_conv)
  ultimately show ?thesis by simp
qed

theorem query_non_pack_exact_witness:
  "\<exists>w. NuWrapper_new example_ext example_game ''mech_weapon'' Src_game = Inr w
      \<and> \<not> truthy (pack w)
      \<and> query example_ext w [(''name'', ''Rifle'')] =
            Inr [\<lparr>res_data = system_data rifle, res_entity = rifle,
                  res_id = ''w1'', res_type = ''mech_weapon''\<rparr>]
      \<and> list_all (\<lambda>d. \<not> matches_criteria example_ext ''mech_weapon'' [(''name'', ''Sword'')] d)
            (contents (items example_game))
      \<and> query example_ext w [(''name'', ''Sword'')] = Inr []"
proof -
  let ?c = "items example_game"
  obtain w where w: "NuWrapper_new example_ext example_game ''mech_weapon'' Src_game = Inr w"
    and cw: "collection w = Inr (Some ?c)" and tw: "entry_type w = ''mech_weapon''"
    and pw: "\<not> truthy (pack w)"
    by (simp add: NuWrapper_new_def lookup_collection_def example_ext_def)
  have yes: "matches_criteria example_ext ''mech_weapon'' [(''name'', ''Rifle'')] rifle"
    by (simp add: matches_criteria_def example_ext_def rifle_def)
  have no: "\<not> matches_criteria example_ext ''mech_weapon'' [(''name'', ''Sword'')] rifle"
    by (simp add: matches_criteria_def example_ext_def rifle_def)
  have c: "contents ?c = [rifle]"
    by (simp add: example_game_def)
  have "query example_ext w [(''name'', ''Rifle'')] =
            Inr [\<lparr>res_data = system_data rifle, res_entity = rifle,
                  res_id = ''w1'', res_type = ''mech_weapon''\<rparr>]"
    using query_non_pack_exact [OF cw pw, of example_ext "[(''name'', ''Rifle'')]"] yes c tw
    by (simp add: rifle_def)
  moreover have "query example_ext w [(''name'', ''Sword'')] = Inr []"
    using query_non_pack_exact [OF cw pw, of example_ext "[(''name'', ''Sword'')]"] no c tw
    by simp
  ultimately show ?thesis using w pw no c tw by auto
qed

text \<open>
  Claim C7. \<open>enumerate\<close> returns what \<open>query\<close> returns for the empty criteria.
\<close>

theorem enumerate_is_query_without_criteria:
  "enumerate_all x this = query x this []"
  by (simp add: enumerate_all_def)

section \<open>The stat roll flow\<close>

text \<open>
  Claim C10. \<open>rollStatMacro\<close> returns \<open>undefined\<close> with no effect at all, for every
  input, so neither \<open>prepareStatMacro\<close> nor \<open>prepareSkillMacro\<close> rolls dice or renders
  a chat card.
\<close>

theorem rollStatMacro_returns_before_rolling:
  "rollStatMacro fx data = ([], Undefined)
   \<and> filter rolls_or_renders (fst (prepareStatMacro fx actor_ref statKey)) = []
   \<and> filter rolls_or_renders (fst (prepareSkillMacro fx item_ref)) = []"
  by (simp add: rollStatMacro_def prepareStatMacro_def prepareSkillMacro_def Let_def
      split: option.split)

end
